theory Spec2Isabelle
  imports Complex_Main "HOL-Library.Word"
begin

text \<open>
  csvalid reads a CSV file record by record and reports, as lines of text, the rows
  and cells that do not fit a schema. This theory embeds its two source files:
  \<open>checkCell\<close> of \<open>checks.js\<close>, which checks one cell against the definition of its
  column, and the handler of the tokenizer's \<open>readable\<close> event in \<open>index.js\<close>, which
  counts rows, checks the number of columns and calls \<open>checkCell\<close> for every column
  of the schema. The CSV tokenizer, the command line and the reading of the schema
  file are outside: the handler is given the parsed schema and the records.
\<close>

section \<open>JavaScript values used by csvalid\<close>

text \<open>
  A JavaScript string is a sequence of UTF-16 code units. The cells that the CSV
  tokenizer hands over, the keys of named records and the string bounds of a column
  definition are all such strings.
\<close>

type_synonym jsstring = "16 word list"

text \<open>
  A JavaScript number that is not NaN, by the real value of the double (both zeros are
  \<open>Dbl 0\<close>). \<open>JSON.parse\<close> never yields NaN, so the numbers of a schema file are of
  this type; a number that may be NaN is a \<open>number option\<close> with \<open>None\<close> for NaN.
\<close>

datatype number = NInf | Dbl real | PInf

text \<open>\<open>a <= b\<close> on two numbers neither of which is NaN.\<close>

fun num_le :: "number \<Rightarrow> number \<Rightarrow> bool" where
  "num_le NInf _ = True"
| "num_le (Dbl a) NInf = False"
| "num_le (Dbl a) (Dbl b) = (a \<le> b)"
| "num_le (Dbl a) PInf = True"
| "num_le PInf PInf = True"
| "num_le PInf _ = False"

text \<open>\<open>a < b\<close> on two numbers neither of which is NaN.\<close>

fun num_lt :: "number \<Rightarrow> number \<Rightarrow> bool" where
  "num_lt _ NInf = False"
| "num_lt NInf _ = True"
| "num_lt (Dbl a) (Dbl b) = (a < b)"
| "num_lt (Dbl a) PInf = True"
| "num_lt PInf _ = False"

text \<open>
  The relational operators of JavaScript on numbers: a comparison with NaN on either
  side is false. \<open>js_ge x y\<close> is \<open>x >= y\<close>, \<open>js_le x y\<close> is \<open>x <= y\<close>.
\<close>

fun js_ge :: "number option \<Rightarrow> number option \<Rightarrow> bool" where
  "js_ge (Some a) (Some b) = num_le b a"
| "js_ge _ _ = False"

fun js_le :: "number option \<Rightarrow> number option \<Rightarrow> bool" where
  "js_le (Some a) (Some b) = num_le a b"
| "js_le _ _ = False"

text \<open>
  The values a field of the parsed schema file can hold: absent (\<open>undefined\<close>),
  \<open>null\<close>, a boolean, a number, a string, or an object or array (\<open>JObj\<close>, whose
  content no check of csvalid reads).
\<close>

datatype jsval = JUndefined | JNull | JBool bool | JNum number | JStr jsstring | JObj

text \<open>ToBoolean, as applied by \<open>if (v)\<close> and \<open>!v\<close>.\<close>

fun truthy :: "jsval \<Rightarrow> bool" where
  "truthy JUndefined = False"
| "truthy JNull = False"
| "truthy (JBool b) = b"
| "truthy (JNum n) = (n \<noteq> Dbl 0)"
| "truthy (JStr s) = (s \<noteq> [])"
| "truthy JObj = True"

text \<open>
  The relational operators on two strings compare code unit by code unit; a proper
  prefix sorts first. \<open>str_lt a b\<close> is \<open>a < b\<close>.
\<close>

fun str_lt :: "jsstring \<Rightarrow> jsstring \<Rightarrow> bool" where
  "str_lt _ [] = False"
| "str_lt [] (y # ys) = True"
| "str_lt (x # xs) (y # ys) = (x < y \<or> (x = y \<and> str_lt xs ys))"

text \<open>
  A cell as \<open>checkCell\<close> receives it, the value of \<open>rec[idx]\<close> or \<open>rec[key]\<close>:
  \<^item> \<open>CStr s\<close>, a string, when the record has the field;
  \<^item> \<open>CUndefined\<close> when neither the record nor its prototype has a property of that
    name;
  \<^item> \<open>CObj str buf\<close> when the record is an object that has no such field and the
    name is that of a property of \<open>Object.prototype\<close> (\<open>toString\<close>, \<open>constructor\<close>,
    ...): the inherited value, a function or an object. It has no method \<open>trim\<close>;
    \<open>str\<close> is the string that both ToString and ToPrimitive convert it to, and
    \<open>buf\<close> the bytes that \<open>Buffer.from\<close> makes of it, \<open>None\<close> when \<open>Buffer.from\<close>
    throws a TypeError on it.
\<close>

datatype cell = CUndefined | CStr jsstring | CObj jsstring "8 word list option"

text \<open>
  ToString of a cell: the string itself, the nine letters of \<open>undefined\<close>, or the
  string of the inherited value.
\<close>

definition ToString :: "cell \<Rightarrow> jsstring" where
  "ToString cell =
     (case cell of
        CUndefined \<Rightarrow> [0x75, 0x6E, 0x64, 0x65, 0x66, 0x69, 0x6E, 0x65, 0x64]
      | CStr s \<Rightarrow> s
      | CObj str buf \<Rightarrow> str)"

subsection \<open>White space and \<open>trim\<close>\<close>

text \<open>
  The code units that \<open>String.prototype.trim\<close> and the numeric parsers skip:
  the WhiteSpace and LineTerminator code points of ECMAScript.
\<close>

definition isWhiteSpace :: "16 word \<Rightarrow> bool" where
  "isWhiteSpace c =
     (c \<in> set [0x09, 0x0A, 0x0B, 0x0C, 0x0D, 0x20, 0xA0, 0x1680,
                0x2028, 0x2029, 0x202F, 0x205F, 0x3000, 0xFEFF]
      \<or> (0x2000 \<le> c \<and> c \<le> 0x200A))"

definition trim :: "jsstring \<Rightarrow> jsstring" where
  "trim s = rev (dropWhile isWhiteSpace (rev (dropWhile isWhiteSpace s)))"

subsection \<open>\<open>Buffer.from(string)\<close>: the UTF-8 bytes of a string\<close>

definition isHighSurrogate :: "16 word \<Rightarrow> bool" where
  "isHighSurrogate c = (0xD800 \<le> c \<and> c < 0xDC00)"

definition isLowSurrogate :: "16 word \<Rightarrow> bool" where
  "isLowSurrogate c = (0xDC00 \<le> c \<and> c < 0xE000)"

text \<open>One code unit that is not the first half of a surrogate pair.\<close>

definition utf8_unit :: "16 word \<Rightarrow> 8 word list" where
  "utf8_unit c =
     (let u = unat c in
      if u < 0x80 then [of_nat u]
      else if u < 0x800 then [of_nat (0xC0 + u div 64), of_nat (0x80 + u mod 64)]
      else if isHighSurrogate c \<or> isLowSurrogate c then [0xEF, 0xBF, 0xBD]
      else [of_nat (0xE0 + u div 4096), of_nat (0x80 + (u div 64) mod 64),
            of_nat (0x80 + u mod 64)])"

text \<open>A surrogate pair: one code point above U+FFFF, four bytes.\<close>

definition utf8_pair :: "16 word \<Rightarrow> 16 word \<Rightarrow> 8 word list" where
  "utf8_pair hi lo =
     (let cp = 0x10000 + (unat hi - 0xD800) * 1024 + (unat lo - 0xDC00) in
      [of_nat (0xF0 + cp div 262144), of_nat (0x80 + (cp div 4096) mod 64),
       of_nat (0x80 + (cp div 64) mod 64), of_nat (0x80 + cp mod 64)])"

fun Buffer_from :: "jsstring \<Rightarrow> 8 word list" where
  "Buffer_from [] = []"
| "Buffer_from [c] = utf8_unit c"
| "Buffer_from (c # d # cs) =
     (if isHighSurrogate c \<and> isLowSurrogate d then utf8_pair c d @ Buffer_from cs
      else utf8_unit c @ Buffer_from (d # cs))"

subsection \<open>\<open>parseInt(string)\<close> with no radix\<close>

text \<open>The value of a digit or letter as a digit, as \<open>parseInt\<close> reads it.\<close>

definition digitValue :: "16 word \<Rightarrow> nat option" where
  "digitValue c =
     (if 0x30 \<le> c \<and> c \<le> 0x39 then Some (unat c - 0x30)
      else if 0x61 \<le> c \<and> c \<le> 0x7A then Some (unat c - 0x61 + 10)
      else if 0x41 \<le> c \<and> c \<le> 0x5A then Some (unat c - 0x41 + 10)
      else None)"

definition isRadixDigit :: "nat \<Rightarrow> 16 word \<Rightarrow> bool" where
  "isRadixDigit R c = (case digitValue c of None \<Rightarrow> False | Some v \<Rightarrow> v < R)"

text \<open>The integer that a digit string denotes in radix \<open>R\<close>.\<close>

definition mathInt :: "nat \<Rightarrow> jsstring \<Rightarrow> nat" where
  "mathInt R Z =
     foldl (\<lambda>acc c. acc * R + (case digitValue c of None \<Rightarrow> 0 | Some v \<Rightarrow> v)) 0 Z"

text \<open>
  \<open>parseInt\<close> up to its last step: \<open>None\<close> is NaN, \<open>Some (neg, n)\<close> is the sign and the
  integer \<open>n\<close> read, before the conversion of \<open>n\<close> to a double. The steps are those
  of ECMAScript. First the radix and the digits, on the string \<open>S\<close> that is left after
  the sign: radix 16 on a prefix \<open>0x\<close> or \<open>0X\<close> (which is dropped), else radix 10;
  the longest run of digits of that radix; NaN when the run is empty.
\<close>

definition parseInt_digits :: "bool \<Rightarrow> jsstring \<Rightarrow> (bool \<times> nat) option" where
  "parseInt_digits neg S =
     (let hex = (2 \<le> length S \<and> (take 2 S = [0x30, 0x78] \<or> take 2 S = [0x30, 0x58]));
          R = (if hex then 16 else 10);
          S2 = (if hex then drop 2 S else S);
          Z = takeWhile (isRadixDigit R) S2
      in if Z = [] then None else Some (neg, mathInt R Z))"

text \<open>Before that: leading white space is dropped, and one sign is read.\<close>

definition parseInt :: "jsstring \<Rightarrow> (bool \<times> nat) option" where
  "parseInt inputString =
     (let S = dropWhile isWhiteSpace inputString;
          neg = (S \<noteq> [] \<and> hd S = 0x2D);
          S1 = (if S \<noteq> [] \<and> (hd S = 0x2B \<or> hd S = 0x2D) then tl S else S)
      in parseInt_digits neg S1)"

text \<open>
  \<open>isFinite\<close> of the result of \<open>parseInt\<close>. The conversion to a double rounds to
  nearest, ties to even: an integer of magnitude \<open>2^1024 - 2^970\<close> or more becomes
  an infinity, every smaller one a finite double.
\<close>

definition infinityFrom :: nat where
  "infinityFrom = 2 ^ 1024 - 2 ^ 970"

definition isFinite_int :: "(bool \<times> nat) option \<Rightarrow> bool" where
  "isFinite_int r = (case r of None \<Rightarrow> False | Some (neg, n) \<Rightarrow> n < infinityFrom)"

text \<open>\<open>isFinite\<close> of a number that may be NaN.\<close>

fun isFinite :: "number option \<Rightarrow> bool" where
  "isFinite (Some (Dbl x)) = True"
| "isFinite _ = False"

subsection \<open>Built-ins taken as parameters\<close>

text \<open>
  Three parts of the run-time are left abstract. \<open>RegExp pat\<close> is \<open>new RegExp(pat)\<close>:
  \<open>None\<close> when the constructor throws a SyntaxError, else the compiled expression as
  its \<open>test\<close> function (the expression has no \<open>g\<close> or \<open>y\<close> flag, so \<open>test\<close> keeps no
  state). \<open>parseFloat s\<close> is the double that \<open>parseFloat\<close> reads off the front of
  \<open>s\<close>, \<open>None\<close> for NaN. \<open>Object_prototype name\<close> is the property \<open>name\<close> of
  \<open>Object.prototype\<close>, which every record that is an object inherits: \<open>None\<close> when
  there is no such property, else the string of its value and what \<open>Buffer.from\<close>
  makes of the value (see \<open>CObj\<close>).
\<close>

record builtins =
  RegExp :: "jsval \<Rightarrow> (jsstring \<Rightarrow> bool) option"
  parseFloat :: "jsstring \<Rightarrow> number option"
  Object_prototype :: "jsstring \<Rightarrow> (jsstring \<times> 8 word list option) option"

section \<open>checks.js\<close>

text \<open>The definition of one column, as the schema file gives it.\<close>

record colDef =
  isEmpty :: jsval
  noEmpty :: jsval
  isAscii :: jsval
  isTrim :: jsval
  regex :: jsval
  isInt :: jsval
  isFloat :: jsval
  minVal :: jsval
  maxVal :: jsval

datatype error = TypeError | SyntaxError

text \<open>The messages that \<open>checkCell\<close> can push, by the check that pushes them.\<close>

definition msg_not_empty :: string where
  "msg_not_empty = ''isn't empty when it should be''"

definition msg_empty :: string where
  "msg_empty = ''is empty when it shouldn't be''"

definition msg_not_ascii :: string where
  "msg_not_ascii = ''contains characters other than 7-bit ASCII printing characters''"

definition msg_not_trimmed :: string where
  "msg_not_trimmed = ''contains leading or trailing whitespace''"

definition msg_no_match :: string where
  "msg_no_match = ''does not match regular expression''"

definition msg_not_int :: string where
  "msg_not_int = ''is not a finite integer''"

definition msg_not_float :: string where
  "msg_not_float = ''is not a finite floating-point number''"

definition msg_below_min :: string where
  "msg_below_min = ''is below minimum numeric value or is not a number''"

definition msg_before_min :: string where
  "msg_before_min = ''sorts before minimum string value''"

definition msg_above_max :: string where
  "msg_above_max = ''is above maximum numeric value or is not a number''"

definition msg_after_max :: string where
  "msg_after_max = ''sorts after maximum string value''"

text \<open>Column must or must not be empty.\<close>

definition check_empty :: "cell \<Rightarrow> colDef \<Rightarrow> string list" where
  "check_empty cell d =
     (if truthy (isEmpty d) then
        (if cell \<noteq> CStr [] then [msg_not_empty] else [])
      else if truthy (noEmpty d) then
        (if cell = CStr [] then [msg_empty] else [])
      else [])"

text \<open>The loop over the bytes of the buffer, which stops at the first bad byte.\<close>

fun ascii_loop :: "8 word list \<Rightarrow> string list" where
  "ascii_loop [] = []"
| "ascii_loop (b # bs) =
     (if b < 0x20 \<or> b > 0x7E
      then [msg_not_ascii]
      else ascii_loop bs)"

text \<open>
  Column must consist of 7-bit ASCII printing characters. \<open>Buffer.from(undefined)\<close>
  throws a TypeError; on an inherited value it throws or gives some bytes.
\<close>

definition check_ascii :: "cell \<Rightarrow> colDef \<Rightarrow> error + string list" where
  "check_ascii cell d =
     (if truthy (isAscii d) then
        (case cell of
           CUndefined \<Rightarrow> Inl TypeError
         | CStr s \<Rightarrow> Inr (ascii_loop (Buffer_from s))
         | CObj str None \<Rightarrow> Inl TypeError
         | CObj str (Some buf) \<Rightarrow> Inr (ascii_loop buf))
      else Inr [])"

text \<open>
  Column must not have leading or trailing white space. \<open>cell.trim()\<close> throws a
  TypeError when \<open>cell\<close> is \<open>undefined\<close> or an inherited value, which has no \<open>trim\<close>.
\<close>

definition check_trim :: "cell \<Rightarrow> colDef \<Rightarrow> error + string list" where
  "check_trim cell d =
     (if truthy (isTrim d) then
        (case cell of
           CUndefined \<Rightarrow> Inl TypeError
         | CStr s \<Rightarrow> Inr (if s \<noteq> trim s then [msg_not_trimmed] else [])
         | CObj str buf \<Rightarrow> Inl TypeError)
      else Inr [])"

text \<open>Column must match a regular expression.\<close>

definition check_regex :: "builtins \<Rightarrow> cell \<Rightarrow> colDef \<Rightarrow> error + string list" where
  "check_regex B cell d =
     (if truthy (regex d) then
        (case RegExp B (regex d) of
           None \<Rightarrow> Inl SyntaxError
         | Some test \<Rightarrow>
             Inr (if \<not> test (ToString cell) then [msg_no_match] else []))
      else Inr [])"

text \<open>Column must parse as a finite integer.\<close>

definition check_int :: "cell \<Rightarrow> colDef \<Rightarrow> string list" where
  "check_int cell d =
     (if truthy (isInt d) then
        (if \<not> isFinite_int (parseInt (ToString cell)) then [msg_not_int] else [])
      else [])"

text \<open>Column must parse as a finite floating-point number.\<close>

definition check_float :: "builtins \<Rightarrow> cell \<Rightarrow> colDef \<Rightarrow> string list" where
  "check_float B cell d =
     (if truthy (isFloat d) then
        (if \<not> isFinite (parseFloat B (ToString cell))
         then [msg_not_float] else [])
      else [])"

text \<open>
  Column must meet a minimum value. With a string bound, \<open>cell >= minVal\<close> compares
  two strings when the cell is a string, and also when it is an inherited value,
  which ToPrimitive turns into its string; an \<open>undefined\<close> cell is converted to NaN
  and the comparison is false.
\<close>

definition check_min :: "builtins \<Rightarrow> cell \<Rightarrow> colDef \<Rightarrow> string list" where
  "check_min B cell d =
     (case minVal d of
        JNum b \<Rightarrow>
          (if \<not> js_ge (parseFloat B (ToString cell)) (Some b)
           then [msg_below_min] else [])
      | JStr m \<Rightarrow>
          (if \<not> (case cell of
                    CUndefined \<Rightarrow> False
                  | CStr s \<Rightarrow> \<not> str_lt s m
                  | CObj str buf \<Rightarrow> \<not> str_lt str m)
           then [msg_before_min] else [])
      | _ \<Rightarrow> [])"

text \<open>Column must meet a maximum value.\<close>

definition check_max :: "builtins \<Rightarrow> cell \<Rightarrow> colDef \<Rightarrow> string list" where
  "check_max B cell d =
     (case maxVal d of
        JNum b \<Rightarrow>
          (if \<not> js_le (parseFloat B (ToString cell)) (Some b)
           then [msg_above_max] else [])
      | JStr m \<Rightarrow>
          (if \<not> (case cell of
                    CUndefined \<Rightarrow> False
                  | CStr s \<Rightarrow> \<not> str_lt m s
                  | CObj str buf \<Rightarrow> \<not> str_lt m str)
           then [msg_after_max] else [])
      | _ \<Rightarrow> [])"

text \<open>
  \<open>checkCell\<close>: the eight checks in the order of the source, each appending to
  \<open>msgs\<close>. An exception leaves the function at the check that throws.
\<close>

definition checkCell :: "builtins \<Rightarrow> cell \<Rightarrow> colDef \<Rightarrow> error + string list" where
  "checkCell B cell d =
     (case check_ascii cell d of
        Inl e \<Rightarrow> Inl e
      | Inr ascii \<Rightarrow>
     (case check_trim cell d of
        Inl e \<Rightarrow> Inl e
      | Inr trimmed \<Rightarrow>
     (case check_regex B cell d of
        Inl e \<Rightarrow> Inl e
      | Inr matched \<Rightarrow>
          Inr (check_empty cell d @ ascii @ trimmed @ matched @ check_int cell d
               @ check_float B cell d @ check_min B cell d @ check_max B cell d))))"

section \<open>index.js\<close>

text \<open>
  Of the two versions of the script that the file holds, this is the one with
  \<open>isRowBlank\<close> and the latched \<open>colsShould\<close>, whose tokenizer runs with
  \<open>relax_column_count\<close> and so passes on records of any number of fields.
\<close>

text \<open>
  One record as \<open>parser.read()\<close> returns it: an array of cells when the tokenizer runs
  without \<open>columns\<close>, an object from header name to cell when it runs with it (the
  pairs in the order of \<open>Object.keys\<close>, each key once).
\<close>

datatype csv_record = ArrRec "jsstring list" | ObjRec "(jsstring \<times> jsstring) list"

fun isRowBlank :: "csv_record \<Rightarrow> bool" where
  "isRowBlank (ArrRec xs) = (length xs = 1 \<and> xs ! 0 = [])"
| "isRowBlank (ObjRec kvs) =
     (let keys = map fst kvs in length keys = 1 \<and> map_of kvs (keys ! 0) = Some [])"

text \<open>
  \<open>columnDefs\<close> of the schema: an array of column definitions, or an object from
  column name to definition (the pairs in the order of \<open>Object.keys\<close>).
\<close>

datatype columnDefs = ArrDefs "colDef list" | ObjDefs "(jsstring \<times> colDef) list"

text \<open>
  The parsed schema file. \<open>columns\<close> and \<open>skipRows\<close> are JSON numbers or absent
  (\<open>None\<close>).
\<close>

record schema =
  columns :: "number option"
  skipRows :: "number option"
  columnDefs :: columnDefs

definition namedColumnMode :: "schema \<Rightarrow> bool" where
  "namedColumnMode schema = (case columnDefs schema of ArrDefs _ \<Rightarrow> False | ObjDefs _ \<Rightarrow> True)"

text \<open>
  The lines written to \<open>outstream\<close>, by the template that produces them:
  \<^item> \<open>BlankLine row\<close> is \<open>(Row row): is a blank line\<close>;
  \<^item> \<open>Inconsistent row should this\<close> is
    \<open>(Row row): inconsistent column count, expected should, found this\<close>;
  \<^item> \<open>CellLine row (ColKey key) msgmid\<close> is \<open>(Row row, Col 'key'): msgmid\<close> and
    \<open>CellLine row (ColIdx n) msgmid\<close> is \<open>(Row row, Col n): msgmid\<close>.
\<close>

datatype label = ColIdx nat | ColKey jsstring

datatype line =
    BlankLine nat
  | Inconsistent nat "number option" nat
  | CellLine nat label string

text \<open>
  The variables of the script that the handler of \<open>readable\<close> changes: the counter
  \<open>row\<close>, the expected column count \<open>colsShould\<close> (\<open>None\<close> is \<open>undefined\<close>) and what
  has been written to \<open>outstream\<close>. The counter is a natural number: a JavaScript
  number counts exactly up to \<open>2^53\<close>, more records than a run reads.
\<close>

record state =
  row :: nat
  colsShould :: "number option"
  out :: "line list"

definition initial :: "schema \<Rightarrow> state" where
  "initial schema =
     \<lparr>row = (if namedColumnMode schema then 1 else 0),
      colsShould = columns schema,
      out = []\<rparr>"

text \<open>\<open>!colsShould\<close>: the count is \<open>undefined\<close> or zero.\<close>

definition unset :: "number option \<Rightarrow> bool" where
  "unset c = (case c of None \<Rightarrow> True | Some n \<Rightarrow> n = Dbl 0)"

text \<open>
  The number of fields of a record: \<open>rec.length\<close> of an array,
  \<open>Object.keys(rec).length\<close> of an object. The tokenizer is created with
  \<open>columns: namedColumnMode\<close>, so the conditional of the source takes the count that
  fits the shape of the record.
\<close>

fun colsThis :: "csv_record \<Rightarrow> nat" where
  "colsThis (ArrRec xs) = length xs"
| "colsThis (ObjRec kvs) = length (map fst kvs)"

text \<open>
  \<open>rec[idx]\<close> on an array: the cell, or \<open>undefined\<close> when the record has no such
  field. \<open>rec[key]\<close> on an object: the cell when the record has the field; else
  the property of that name of \<open>Object.prototype\<close>, if it has one; else
  \<open>undefined\<close>. (An array read by a column name and an object read by an index do
  not arise, for the reason above; the model reads \<open>undefined\<close> there.)
\<close>

fun at_idx :: "csv_record \<Rightarrow> nat \<Rightarrow> cell" where
  "at_idx (ArrRec xs) idx = (if idx < length xs then CStr (xs ! idx) else CUndefined)"
| "at_idx (ObjRec kvs) idx = CUndefined"

fun at_key :: "builtins \<Rightarrow> csv_record \<Rightarrow> jsstring \<Rightarrow> cell" where
  "at_key B (ObjRec kvs) key =
     (case map_of kvs key of
        Some s \<Rightarrow> CStr s
      | None \<Rightarrow>
          (case Object_prototype B key of
             Some (str, buf) \<Rightarrow> CObj str buf
           | None \<Rightarrow> CUndefined))"
| "at_key B (ArrRec xs) key = CUndefined"

text \<open>
  What one pass of the handler's loop body ends in: the next state, or an
  exception thrown out of the handler, with the state at that moment.
\<close>

datatype outcome = Next state | Threw error state

fun state_of :: "outcome \<Rightarrow> state" where
  "state_of (Next st) = st"
| "state_of (Threw e st) = st"

text \<open>
  \<open>schema.columnDefs.forEach((colDef, idx) => ...)\<close> of positional mode: every
  message of \<open>checkCell\<close> is written at once, under the 1-based column number.
\<close>

fun forEach_idx :: "builtins \<Rightarrow> csv_record \<Rightarrow> colDef list \<Rightarrow> nat \<Rightarrow> state \<Rightarrow> outcome" where
  "forEach_idx B rec [] idx st = Next st"
| "forEach_idx B rec (colDef # rest) idx st =
     (case checkCell B (at_idx rec idx) colDef of
        Inl e \<Rightarrow> Threw e st
      | Inr msgs \<Rightarrow>
          forEach_idx B rec rest (idx + 1)
            (st\<lparr>out := out st @ map (CellLine (row st) (ColIdx (idx + 1))) msgs\<rparr>))"

text \<open>\<open>Object.keys(schema.columnDefs).forEach(key => ...)\<close> of named mode.\<close>

fun forEach_key :: "builtins \<Rightarrow> csv_record \<Rightarrow> (jsstring \<times> colDef) list \<Rightarrow> state \<Rightarrow> outcome" where
  "forEach_key B rec [] st = Next st"
| "forEach_key B rec ((key, colDef) # rest) st =
     (case checkCell B (at_key B rec key) colDef of
        Inl e \<Rightarrow> Threw e st
      | Inr msgs \<Rightarrow>
          forEach_key B rec rest
            (st\<lparr>out := out st @ map (CellLine (row st) (ColKey key)) msgs\<rparr>))"

text \<open>The body of the loop \<open>while (rec = parser.read())\<close>.\<close>

definition readable_body :: "builtins \<Rightarrow> schema \<Rightarrow> state \<Rightarrow> csv_record \<Rightarrow> outcome" where
  "readable_body B schema st0 rec =
     (let st1 = st0\<lparr>row := row st0 + 1\<rparr> in
      if js_le (Some (Dbl (real (row st1)))) (skipRows schema) then Next st1
      else
        let st2 = (if unset (colsShould st1)
                   then st1\<lparr>colsShould := Some (Dbl (real (colsThis rec)))\<rparr> else st1) in
        if isRowBlank rec then Next (st2\<lparr>out := out st2 @ [BlankLine (row st2)]\<rparr>)
        else
          let st3 = (if Some (Dbl (real (colsThis rec))) \<noteq> colsShould st2
                     then st2\<lparr>out := out st2
                                 @ [Inconsistent (row st2) (colsShould st2) (colsThis rec)]\<rparr>
                     else st2) in
          (case columnDefs schema of
             ObjDefs defs \<Rightarrow> forEach_key B rec defs st3
           | ArrDefs defs \<Rightarrow> forEach_idx B rec defs 0 st3))"

text \<open>
  The loop itself, over the records that the tokenizer yields during the run. An
  exception ends it.
\<close>

fun readable :: "builtins \<Rightarrow> schema \<Rightarrow> state \<Rightarrow> csv_record list \<Rightarrow> outcome" where
  "readable B schema st [] = Next st"
| "readable B schema st (rec # recs) =
     (case readable_body B schema st rec of
        Next st' \<Rightarrow> readable B schema st' recs
      | Threw e st' \<Rightarrow> Threw e st')"

section \<open>Notions of the specification\<close>

text \<open>
  A rule configuration is well formed when its pattern, if it has one, is a regular
  expression that compiles: the one way \<open>checkCell\<close> can throw on a string cell.
\<close>

definition wellFormed :: "builtins \<Rightarrow> colDef \<Rightarrow> bool" where
  "wellFormed B d =
     (if truthy (regex d) then (case RegExp B (regex d) of None \<Rightarrow> False | Some _ \<Rightarrow> True)
      else True)"

text \<open>The column definition \<open>{}\<close>: every field absent.\<close>

definition noRules :: colDef where
  "noRules =
     \<lparr>isEmpty = JUndefined, noEmpty = JUndefined, isAscii = JUndefined, isTrim = JUndefined,
      regex = JUndefined, isInt = JUndefined, isFloat = JUndefined, minVal = JUndefined,
      maxVal = JUndefined\<rparr>"

text \<open>
  Built-ins for the examples: the pattern \<open>a\<close> compiles to the search for the letter
  \<open>a\<close> and no other pattern compiles; \<open>parseFloat\<close> reads \<open>5\<close> from the string \<open>5\<close>
  and NaN from every other string; of \<open>Object.prototype\<close> there is the property
  \<open>toString\<close>, a function whose string is \<open>function toString() { [native code] }\<close>
  and on which \<open>Buffer.from\<close> throws.
\<close>

definition exampleBuiltins :: builtins where
  "exampleBuiltins =
     \<lparr>RegExp = (\<lambda>pat. if pat = JStr [0x61] then Some (\<lambda>s. 0x61 \<in> set s) else None),
      parseFloat = (\<lambda>s. if s = [0x35] then Some (Dbl 5) else None),
      Object_prototype =
        (\<lambda>name. if name = [0x74, 0x6F, 0x53, 0x74, 0x72, 0x69, 0x6E, 0x67]
           then Some
             ([0x66, 0x75, 0x6E, 0x63, 0x74, 0x69, 0x6F, 0x6E, 0x20, 0x74, 0x6F, 0x53,
              0x74, 0x72, 0x69, 0x6E, 0x67, 0x28, 0x29, 0x20, 0x7B, 0x20, 0x5B, 0x6E,
              0x61, 0x74, 0x69, 0x76, 0x65, 0x20, 0x63, 0x6F, 0x64, 0x65, 0x5D, 0x20,
              0x7D],
              None)
           else None)\<rparr>"

text \<open>
  A string that starts with a run of decimal digits, the whole run denoting an integer
  that is finite as a double.
\<close>

definition decimal_digits :: "jsstring \<Rightarrow> bool" where
  "decimal_digits body =
     (\<exists>ds rest. body = ds @ rest \<and> ds \<noteq> [] \<and> list_all (isRadixDigit 10) ds
        \<and> (rest = [] \<or> \<not> isRadixDigit 10 (hd rest))
        \<and> mathInt 10 ds < infinityFrom)"

text \<open>
  The reading of the specification: the content of the cell begins with an optionally
  signed sequence of digits forming a finite integer.
\<close>

definition begins_with_integer :: "jsstring \<Rightarrow> bool" where
  "begins_with_integer s =
     (\<exists>sg body. s = sg @ body \<and> (sg = [] \<or> sg = [0x2B] \<or> sg = [0x2D]) \<and> decimal_digits body)"

text \<open>A string that starts with \<open>0x\<close> or \<open>0X\<close>.\<close>

definition hex_prefix :: "jsstring \<Rightarrow> bool" where
  "hex_prefix body = (\<exists>x rest. body = 0x30 # x # rest \<and> (x = 0x78 \<or> x = 0x58))"

text \<open>
  A string that starts with \<open>0x\<close> or \<open>0X\<close> and then a run of hexadecimal digits, the
  whole run denoting an integer that is finite as a double.
\<close>

definition hex_digits :: "jsstring \<Rightarrow> bool" where
  "hex_digits body =
     (\<exists>x ds rest. body = 0x30 # x # ds @ rest \<and> (x = 0x78 \<or> x = 0x58)
        \<and> ds \<noteq> [] \<and> list_all (isRadixDigit 16) ds
        \<and> (rest = [] \<or> \<not> isRadixDigit 16 (hd rest))
        \<and> mathInt 16 ds < infinityFrom)"

text \<open>
  What the code accepts as an integer: white space, then at most one sign, then
  either a hexadecimal literal or, when no \<open>0x\<close> follows the sign, decimal digits.
\<close>

definition reads_integer :: "jsstring \<Rightarrow> bool" where
  "reads_integer s =
     (\<exists>ws sg body. s = ws @ sg @ body \<and> list_all isWhiteSpace ws
        \<and> (sg = [] \<or> sg = [0x2B] \<or> sg = [0x2D])
        \<and> (if hex_prefix body then hex_digits body else decimal_digits body))"

text \<open>The lines about cells, to tell them from the two diagnostics about a row.\<close>

fun isCellLine :: "line \<Rightarrow> bool" where
  "isCellLine (CellLine r l m) = True"
| "isCellLine _ = False"


text \<open>\<open>row <= schema.skipRows\<close> for the row number \<open>n\<close>.\<close>

definition skipped :: "schema \<Rightarrow> nat \<Rightarrow> bool" where
  "skipped schema n = js_le (Some (Dbl (real n))) (skipRows schema)"

section \<open>Properties of \<open>checkCell\<close>\<close>

subsection \<open>The messages each check can append\<close>

lemma msgs_distinct:
  "distinct [msg_not_empty, msg_empty, msg_not_ascii, msg_not_trimmed, msg_no_match, msg_not_int,
             msg_not_float, msg_below_min, msg_before_min, msg_above_max, msg_after_max]"
  by (simp add: msg_not_empty_def msg_empty_def msg_not_ascii_def msg_not_trimmed_def
      msg_no_match_def msg_not_int_def msg_not_float_def msg_below_min_def msg_before_min_def
      msg_above_max_def msg_after_max_def)

lemma msgs_distinct_rev:
  "distinct [msg_after_max, msg_above_max, msg_before_min, msg_below_min, msg_not_float,
             msg_not_int, msg_no_match, msg_not_trimmed, msg_not_ascii, msg_empty, msg_not_empty]"
  by (simp add: msg_not_empty_def msg_empty_def msg_not_ascii_def msg_not_trimmed_def
      msg_no_match_def msg_not_int_def msg_not_float_def msg_below_min_def msg_before_min_def
      msg_above_max_def msg_after_max_def)

lemmas msg_neq = msgs_distinct [simplified] msgs_distinct_rev [simplified]

lemma set_check_empty:
  "set (check_empty c d) \<subseteq> {msg_not_empty, msg_empty}"
  by (auto simp: check_empty_def)

lemma set_ascii_loop:
  "set (ascii_loop bs) \<subseteq> {msg_not_ascii}"
  by (induction bs) auto

lemma set_check_int: "set (check_int c d) \<subseteq> {msg_not_int}"
  by (auto simp: check_int_def)

lemma set_check_float: "set (check_float B c d) \<subseteq> {msg_not_float}"
  by (auto simp: check_float_def)

lemma set_check_min:
  "set (check_min B c d) \<subseteq> {msg_below_min, msg_before_min}"
  by (auto simp: check_min_def split: jsval.splits)

lemma set_check_max:
  "set (check_max B c d) \<subseteq> {msg_above_max, msg_after_max}"
  by (auto simp: check_max_def split: jsval.splits)

lemma check_ascii_string:
  "check_ascii (CStr s) d = Inr (if truthy (isAscii d) then ascii_loop (Buffer_from s) else [])"
  by (simp add: check_ascii_def)

lemma check_trim_string:
  "\<exists>t. check_trim (CStr s) d = Inr t \<and> set t \<subseteq> {msg_not_trimmed}"
  by (auto simp: check_trim_def)

lemma check_regex_string:
  "wellFormed B d \<Longrightarrow>
   \<exists>m. check_regex B c d = Inr m \<and> set m \<subseteq> {msg_no_match}"
  by (auto simp: check_regex_def wellFormed_def split: option.splits)

text \<open>On a string cell and a well-formed configuration no check throws.\<close>

lemma checkCell_string:
  assumes "wellFormed B d"
  shows "\<exists>a t m. checkCell B (CStr s) d =
           Inr (check_empty (CStr s) d @ a @ t @ m @ check_int (CStr s) d
                @ check_float B (CStr s) d @ check_min B (CStr s) d @ check_max B (CStr s) d)
         \<and> a = (if truthy (isAscii d) then ascii_loop (Buffer_from s) else [])
         \<and> set a \<subseteq> {msg_not_ascii}
         \<and> set t \<subseteq> {msg_not_trimmed}
         \<and> set m \<subseteq> {msg_no_match}"
proof -
  obtain t where t: "check_trim (CStr s) d = Inr t"
    "set t \<subseteq> {msg_not_trimmed}"
    using check_trim_string by blast
  obtain m where m: "check_regex B (CStr s) d = Inr m"
    "set m \<subseteq> {msg_no_match}"
    using check_regex_string [OF assms] by blast
  let ?a = "if truthy (isAscii d) then ascii_loop (Buffer_from s) else []"
  have "checkCell B (CStr s) d =
           Inr (check_empty (CStr s) d @ ?a @ t @ m
                @ check_int (CStr s) d @ check_float B (CStr s) d @ check_min B (CStr s) d
                @ check_max B (CStr s) d)"
    using t m by (simp add: checkCell_def check_ascii_string)
  moreover have "set ?a \<subseteq> {msg_not_ascii}"
    using set_ascii_loop [of "Buffer_from s"] by auto
  ultimately show ?thesis
    using t(2) m(2) by blast
qed

lemma notin_sub: "set xs \<subseteq> A \<Longrightarrow> x \<notin> A \<Longrightarrow> x \<notin> set xs"
  by blast

lemma count_notin: "x \<notin> set xs \<Longrightarrow> count_list xs x = 0"
  by (simp add: count_list_0_iff)

lemma count_ascii_loop:
  "count_list (ascii_loop bs) msg_not_ascii
     = (if \<exists>b \<in> set bs. b < 0x20 \<or> b > 0x7E then 1 else 0)"
  by (induction bs) auto

subsection \<open>Emptiness\<close>

text \<open>
  C4. For every string cell and a column definition with \<open>isEmpty\<close> set, \<open>checkCell\<close>
  returns the message \<open>isn't empty when it should be\<close> exactly when the cell is not the
  empty string, and it never returns \<open>is empty when it shouldn't be\<close>, whatever
  \<open>noEmpty\<close> is: \<open>isEmpty\<close> is tested first.
\<close>

theorem isEmpty_message_iff_nonempty:
  assumes "wellFormed B d" and "truthy (isEmpty d)"
  shows "\<exists>msgs. checkCell B (CStr s) d = Inr msgs
           \<and> (msg_not_empty \<in> set msgs \<longleftrightarrow> s \<noteq> [])
           \<and> msg_empty \<notin> set msgs"
proof -
  obtain a t m where cc: "checkCell B (CStr s) d =
           Inr (check_empty (CStr s) d @ a @ t @ m @ check_int (CStr s) d
                @ check_float B (CStr s) d @ check_min B (CStr s) d @ check_max B (CStr s) d)"
    and a: "set a \<subseteq> {msg_not_ascii}"
    and t: "set t \<subseteq> {msg_not_trimmed}"
    and m: "set m \<subseteq> {msg_no_match}"
    using checkCell_string [OF assms(1)] by blast
  have e: "check_empty (CStr s) d = (if s \<noteq> [] then [msg_not_empty] else [])"
    using assms(2) by (simp add: check_empty_def)
  have 1: "msg_not_empty \<notin> set (a @ t @ m @ check_int (CStr s) d
                @ check_float B (CStr s) d @ check_min B (CStr s) d @ check_max B (CStr s) d)"
    using notin_sub [OF a] notin_sub [OF t] notin_sub [OF m] notin_sub [OF set_check_int]
      notin_sub [OF set_check_float] notin_sub [OF set_check_min] notin_sub [OF set_check_max]
    by (simp add: msg_neq)
  have 2: "msg_empty \<notin> set (a @ t @ m @ check_int (CStr s) d
                @ check_float B (CStr s) d @ check_min B (CStr s) d @ check_max B (CStr s) d)"
    using notin_sub [OF a] notin_sub [OF t] notin_sub [OF m] notin_sub [OF set_check_int]
      notin_sub [OF set_check_float] notin_sub [OF set_check_min] notin_sub [OF set_check_max]
    by (simp add: msg_neq)
  show ?thesis using 1 2 by (simp add: cc e msg_neq)
qed

text \<open>
  The cell \<open>x\<close> against \<open>{isEmpty: true, noEmpty: true}\<close>: the message of \<open>isEmpty\<close>
  and nothing of \<open>noEmpty\<close>.
\<close>

theorem isEmpty_message_iff_nonempty_witness:
  "wellFormed exampleBuiltins (noRules\<lparr>isEmpty := JBool True, noEmpty := JBool True\<rparr>)
   \<and> truthy (isEmpty (noRules\<lparr>isEmpty := JBool True, noEmpty := JBool True\<rparr>))
   \<and> (\<exists>msgs. checkCell exampleBuiltins (CStr [0x78])
                 (noRules\<lparr>isEmpty := JBool True, noEmpty := JBool True\<rparr>) = Inr msgs
         \<and> msg_not_empty \<in> set msgs
         \<and> msg_empty \<notin> set msgs)"
  using isEmpty_message_iff_nonempty
    [of exampleBuiltins "noRules\<lparr>isEmpty := JBool True, noEmpty := JBool True\<rparr>" "[0x78]"]
  by (simp add: wellFormed_def noRules_def)

subsection \<open>Totality\<close>

text \<open>
  C7. For every string cell and every well-formed rule configuration \<open>checkCell\<close>
  returns a message list, never an exception. It is a function of its arguments and
  the two built-ins it calls, none of which keeps state, so the list it returns is
  the only one.
\<close>

theorem checkCell_total:
  assumes "wellFormed B d"
  shows "\<exists>!msgs. checkCell B (CStr s) d = Inr msgs"
  using checkCell_string [OF assms, of s] by auto

theorem checkCell_total_witness:
  "wellFormed exampleBuiltins (noRules\<lparr>regex := JStr [0x61], isTrim := JBool True\<rparr>)
   \<and> (\<exists>!msgs. checkCell exampleBuiltins (CStr [0x20, 0x62])
                  (noRules\<lparr>regex := JStr [0x61], isTrim := JBool True\<rparr>) = Inr msgs)"
  using checkCell_total
    [of exampleBuiltins "noRules\<lparr>regex := JStr [0x61], isTrim := JBool True\<rparr>" "[0x20, 0x62]"]
  by (simp add: wellFormed_def noRules_def exampleBuiltins_def)

subsection \<open>ASCII\<close>

text \<open>
  C8. For every string cell and a column definition with \<open>isAscii\<close> set, the message
  about 7-bit ASCII occurs once in the result when some byte of the UTF-8 encoding of
  the cell is below 0x20 or above 0x7E, however many such bytes there are, and does
  not occur when every byte is in that range.
\<close>

theorem isAscii_one_message:
  assumes "wellFormed B d" and "truthy (isAscii d)"
  shows "\<exists>msgs. checkCell B (CStr s) d = Inr msgs
           \<and> count_list msgs msg_not_ascii
               = (if \<exists>b \<in> set (Buffer_from s). b < 0x20 \<or> b > 0x7E then 1 else 0)"
proof -
  obtain a t m where cc: "checkCell B (CStr s) d =
           Inr (check_empty (CStr s) d @ a @ t @ m @ check_int (CStr s) d
                @ check_float B (CStr s) d @ check_min B (CStr s) d @ check_max B (CStr s) d)"
    and a: "a = (if truthy (isAscii d) then ascii_loop (Buffer_from s) else [])"
    and t: "set t \<subseteq> {msg_not_trimmed}"
    and m: "set m \<subseteq> {msg_no_match}"
    using checkCell_string [OF assms(1)] by blast
  let ?M = "msg_not_ascii"
  have "count_list (check_empty (CStr s) d) ?M = 0"
    by (rule count_notin [OF notin_sub [OF set_check_empty]]) (simp add: msg_neq)
  moreover have "count_list t ?M = 0"
    by (rule count_notin [OF notin_sub [OF t]]) (simp add: msg_neq)
  moreover have "count_list m ?M = 0"
    by (rule count_notin [OF notin_sub [OF m]]) (simp add: msg_neq)
  moreover have "count_list (check_int (CStr s) d) ?M = 0"
    by (rule count_notin [OF notin_sub [OF set_check_int]]) (simp add: msg_neq)
  moreover have "count_list (check_float B (CStr s) d) ?M = 0"
    by (rule count_notin [OF notin_sub [OF set_check_float]]) (simp add: msg_neq)
  moreover have "count_list (check_min B (CStr s) d) ?M = 0"
    by (rule count_notin [OF notin_sub [OF set_check_min]]) (simp add: msg_neq)
  moreover have "count_list (check_max B (CStr s) d) ?M = 0"
    by (rule count_notin [OF notin_sub [OF set_check_max]]) (simp add: msg_neq)
  moreover have "count_list a ?M = (if \<exists>b \<in> set (Buffer_from s). b < 0x20 \<or> b > 0x7E then 1 else 0)"
    using assms(2) by (simp add: a count_ascii_loop)
  ultimately show ?thesis
    by (simp add: cc)
qed

text \<open>
  The cell \<open>a\<close>, e acute, euro sign has five bytes above 0x7E and gets one message;
  the cell \<open>a~\<close> gets none.
\<close>

theorem isAscii_one_message_witness:
  "wellFormed exampleBuiltins (noRules\<lparr>isAscii := JBool True\<rparr>)
   \<and> truthy (isAscii (noRules\<lparr>isAscii := JBool True\<rparr>))
   \<and> (\<exists>msgs. checkCell exampleBuiltins (CStr [0x61, 0xE9, 0x20AC])
                 (noRules\<lparr>isAscii := JBool True\<rparr>) = Inr msgs
         \<and> count_list msgs msg_not_ascii = 1)
   \<and> (\<exists>msgs. checkCell exampleBuiltins (CStr [0x61, 0x7E])
                 (noRules\<lparr>isAscii := JBool True\<rparr>) = Inr msgs
         \<and> count_list msgs msg_not_ascii = 0)"
  using isAscii_one_message
      [of exampleBuiltins "noRules\<lparr>isAscii := JBool True\<rparr>" "[0x61, 0xE9, 0x20AC]"]
    isAscii_one_message [of exampleBuiltins "noRules\<lparr>isAscii := JBool True\<rparr>" "[0x61, 0x7E]"]
  by (simp add: wellFormed_def noRules_def utf8_unit_def isHighSurrogate_def isLowSurrogate_def)

subsection \<open>Bounds\<close>

lemma not_num_le: "(\<not> num_le b v) = num_lt v b"
  by (cases b; cases v) auto

lemma check_min_num:
  "msg_below_min \<in> set (check_min B (CStr s) d)
     \<longleftrightarrow> (\<exists>b. minVal d = JNum b
            \<and> (parseFloat B s = None \<or> (\<exists>v. parseFloat B s = Some v \<and> num_lt v b)))"
  by (cases "parseFloat B s")
    (auto simp: check_min_def ToString_def not_num_le msg_neq split: jsval.splits)

lemma check_min_str:
  "msg_before_min \<in> set (check_min B (CStr s) d)
     \<longleftrightarrow> (\<exists>m. minVal d = JStr m \<and> str_lt s m)"
  by (auto simp: check_min_def msg_neq split: jsval.splits)

lemma check_max_num:
  "msg_above_max \<in> set (check_max B (CStr s) d)
     \<longleftrightarrow> (\<exists>b. maxVal d = JNum b
            \<and> (parseFloat B s = None \<or> (\<exists>v. parseFloat B s = Some v \<and> num_lt b v)))"
  by (cases "parseFloat B s")
    (auto simp: check_max_def ToString_def not_num_le msg_neq split: jsval.splits)

lemma check_max_str:
  "msg_after_max \<in> set (check_max B (CStr s) d)
     \<longleftrightarrow> (\<exists>m. maxVal d = JStr m \<and> str_lt m s)"
  by (auto simp: check_max_def msg_neq split: jsval.splits)

text \<open>
  C3. For every string cell and well-formed column definition, each of the four bound
  messages is returned exactly in its own case. With a numeric \<open>minVal\<close> the cell
  is read by \<open>parseFloat\<close> and the numeric message is returned exactly when the
  result is NaN or below the bound; with a string \<open>minVal\<close> the cell itself is
  compared and the string message is returned exactly when the cell sorts before the
  bound. \<open>maxVal\<close> is symmetric. A numeric bound never yields the string message
  nor a string bound the numeric one.
\<close>

theorem bounds_by_type:
  assumes "wellFormed B d"
  shows "\<exists>msgs. checkCell B (CStr s) d = Inr msgs
    \<and> (msg_below_min \<in> set msgs
         \<longleftrightarrow> (\<exists>b. minVal d = JNum b
                \<and> (parseFloat B s = None \<or> (\<exists>v. parseFloat B s = Some v \<and> num_lt v b))))
    \<and> (msg_before_min \<in> set msgs
         \<longleftrightarrow> (\<exists>m. minVal d = JStr m \<and> str_lt s m))
    \<and> (msg_above_max \<in> set msgs
         \<longleftrightarrow> (\<exists>b. maxVal d = JNum b
                \<and> (parseFloat B s = None \<or> (\<exists>v. parseFloat B s = Some v \<and> num_lt b v))))
    \<and> (msg_after_max \<in> set msgs
         \<longleftrightarrow> (\<exists>m. maxVal d = JStr m \<and> str_lt m s))"
proof -
  obtain a t m where cc: "checkCell B (CStr s) d =
           Inr (check_empty (CStr s) d @ a @ t @ m @ check_int (CStr s) d
                @ check_float B (CStr s) d @ check_min B (CStr s) d @ check_max B (CStr s) d)"
    and a: "set a \<subseteq> {msg_not_ascii}"
    and t: "set t \<subseteq> {msg_not_trimmed}"
    and m: "set m \<subseteq> {msg_no_match}"
    using checkCell_string [OF assms(1)] by blast
  let ?msgs = "check_empty (CStr s) d @ a @ t @ m @ check_int (CStr s) d
                @ check_float B (CStr s) d @ check_min B (CStr s) d @ check_max B (CStr s) d"
  note others = notin_sub [OF set_check_empty] notin_sub [OF a] notin_sub [OF t] notin_sub [OF m]
    notin_sub [OF set_check_int] notin_sub [OF set_check_float]
  have A: "msg_below_min \<in> set ?msgs \<longleftrightarrow> msg_below_min \<in> set (check_min B (CStr s) d)"
    using others [of msg_below_min] notin_sub [OF set_check_max, of msg_below_min]
    by (simp add: msg_neq)
  have B: "msg_before_min \<in> set ?msgs \<longleftrightarrow> msg_before_min \<in> set (check_min B (CStr s) d)"
    using others [of msg_before_min] notin_sub [OF set_check_max, of msg_before_min]
    by (simp add: msg_neq)
  have C: "msg_above_max \<in> set ?msgs \<longleftrightarrow> msg_above_max \<in> set (check_max B (CStr s) d)"
    using others [of msg_above_max] notin_sub [OF set_check_min, of msg_above_max]
    by (simp add: msg_neq)
  have D: "msg_after_max \<in> set ?msgs \<longleftrightarrow> msg_after_max \<in> set (check_max B (CStr s) d)"
    using others [of msg_after_max] notin_sub [OF set_check_min, of msg_after_max]
    by (simp add: msg_neq)
  show ?thesis
    unfolding cc
    by (rule exI [of _ ?msgs])
      (simp only: A B C D check_min_num check_min_str check_max_num check_max_str)
qed

text \<open>
  The bound \<open>b\<close> rejects the cell \<open>a\<close> and accepts the cell \<open>c\<close>; the cell \<open>5\<close>
  is below the numeric minimum 7 and above the numeric maximum 4.
\<close>

theorem bounds_by_type_witness:
  "wellFormed exampleBuiltins (noRules\<lparr>minVal := JStr [0x62]\<rparr>)
   \<and> (\<exists>msgs. checkCell exampleBuiltins (CStr [0x61]) (noRules\<lparr>minVal := JStr [0x62]\<rparr>) = Inr msgs
         \<and> msg_before_min \<in> set msgs)
   \<and> (\<exists>msgs. checkCell exampleBuiltins (CStr [0x63]) (noRules\<lparr>minVal := JStr [0x62]\<rparr>) = Inr msgs
         \<and> msg_before_min \<notin> set msgs)
   \<and> wellFormed exampleBuiltins (noRules\<lparr>minVal := JNum (Dbl 7), maxVal := JNum (Dbl 4)\<rparr>)
   \<and> (\<exists>msgs. checkCell exampleBuiltins (CStr [0x35])
                 (noRules\<lparr>minVal := JNum (Dbl 7), maxVal := JNum (Dbl 4)\<rparr>) = Inr msgs
         \<and> msg_below_min \<in> set msgs \<and> msg_above_max \<in> set msgs \<and> msg_after_max \<notin> set msgs)"
proof -
  let ?d = "noRules\<lparr>minVal := JStr [0x62]\<rparr>"
  let ?e = "noRules\<lparr>minVal := JNum (Dbl 7), maxVal := JNum (Dbl 4)\<rparr>"
  have wd: "wellFormed exampleBuiltins ?d"
    by (simp add: wellFormed_def noRules_def)
  have we: "wellFormed exampleBuiltins ?e"
    by (simp add: wellFormed_def noRules_def)
  have d: "minVal ?d = JStr [0x62]" "maxVal ?d = JUndefined"
    by (simp_all add: noRules_def)
  have e: "minVal ?e = JNum (Dbl 7)" "maxVal ?e = JNum (Dbl 4)"
    by (simp_all add: noRules_def)
  have p: "parseFloat exampleBuiltins [0x35] = Some (Dbl 5)"
    by (simp add: exampleBuiltins_def)
  have 1: "\<exists>msgs. checkCell exampleBuiltins (CStr [0x61]) ?d = Inr msgs
         \<and> msg_before_min \<in> set msgs"
    using bounds_by_type [OF wd, of "[0x61]"] by (simp only: d) auto
  have 2: "\<exists>msgs. checkCell exampleBuiltins (CStr [0x63]) ?d = Inr msgs
         \<and> msg_before_min \<notin> set msgs"
    using bounds_by_type [OF wd, of "[0x63]"] by (simp only: d) auto
  have 3: "\<exists>msgs. checkCell exampleBuiltins (CStr [0x35]) ?e = Inr msgs
         \<and> msg_below_min \<in> set msgs \<and> msg_above_max \<in> set msgs \<and> msg_after_max \<notin> set msgs"
    using bounds_by_type [OF we, of "[0x35]"] by (simp only: e p) auto
  show ?thesis
    using wd we 1 2 3 by blast
qed

subsection \<open>Integers\<close>

lemma dropWhile_run:
  "list_all P ws \<Longrightarrow> ys = [] \<or> \<not> P (hd ys) \<Longrightarrow> dropWhile P (ws @ ys) = ys"
proof (induction ws)
  case Nil
  then show ?case by (cases ys) auto
next
  case (Cons w ws)
  then show ?case by simp
qed

lemma takeWhile_run:
  "list_all P ds \<Longrightarrow> rest = [] \<or> \<not> P (hd rest) \<Longrightarrow> takeWhile P (ds @ rest) = ds"
proof (induction ds)
  case Nil
  then show ?case by (cases rest) auto
next
  case (Cons d ds)
  then show ?case by simp
qed

lemma digit_range:
  "isRadixDigit R c \<Longrightarrow> 48 \<le> unat c \<and> unat c \<le> 122"
  by (auto simp: isRadixDigit_def digitValue_def word_le_nat_alt split: if_splits)

lemma ws_range: "isWhiteSpace c \<Longrightarrow> unat c \<le> 32 \<or> 160 \<le> unat c"
  by (auto simp: isWhiteSpace_def word_le_nat_alt)

lemma digit_not_ws: "isRadixDigit R c \<Longrightarrow> \<not> isWhiteSpace c"
  using digit_range [of R c] ws_range [of c] by auto

lemma digit_not_sign: "isRadixDigit R c \<Longrightarrow> c \<noteq> 0x2B \<and> c \<noteq> 0x2D"
  using digit_range [of R c] by auto

lemma sign_not_ws: "\<not> isWhiteSpace 0x2B" "\<not> isWhiteSpace 0x2D" "\<not> isWhiteSpace 0x30"
  by (simp_all add: isWhiteSpace_def)

lemma hex_prefix_iff:
  "(2 \<le> length S \<and> (take 2 S = [0x30, 0x78] \<or> take 2 S = [0x30, 0x58])) \<longleftrightarrow> hex_prefix S"
  by (cases S; cases "tl S") (auto simp: hex_prefix_def)


lemma run_iff:
  "(takeWhile P xs \<noteq> [] \<and> Q (takeWhile P xs))
     \<longleftrightarrow> (\<exists>ds rest. xs = ds @ rest \<and> ds \<noteq> [] \<and> list_all P ds
                    \<and> (rest = [] \<or> \<not> P (hd rest)) \<and> Q ds)"
proof
  assume L: "takeWhile P xs \<noteq> [] \<and> Q (takeWhile P xs)"
  have "xs = takeWhile P xs @ dropWhile P xs"
    by simp
  moreover have "list_all P (takeWhile P xs)"
    by (simp add: list_all_iff) (meson set_takeWhileD)
  moreover have "dropWhile P xs = [] \<or> \<not> P (hd (dropWhile P xs))"
    using hd_dropWhile [of P xs] by blast
  ultimately show "\<exists>ds rest. xs = ds @ rest \<and> ds \<noteq> [] \<and> list_all P ds
                    \<and> (rest = [] \<or> \<not> P (hd rest)) \<and> Q ds"
    using L by blast
next
  assume "\<exists>ds rest. xs = ds @ rest \<and> ds \<noteq> [] \<and> list_all P ds
                    \<and> (rest = [] \<or> \<not> P (hd rest)) \<and> Q ds"
  then obtain ds rest where *: "xs = ds @ rest" "ds \<noteq> []" "list_all P ds"
      "rest = [] \<or> \<not> P (hd rest)" "Q ds"
    by blast
  have "takeWhile P xs = ds"
    using takeWhile_run [OF *(3,4)] *(1) by simp
  then show "takeWhile P xs \<noteq> [] \<and> Q (takeWhile P xs)"
    using * by simp
qed

lemma decimal_digits_iff:
  "decimal_digits S \<longleftrightarrow>
     takeWhile (isRadixDigit 10) S \<noteq> []
     \<and> mathInt 10 (takeWhile (isRadixDigit 10) S) < infinityFrom"
  unfolding decimal_digits_def
  by (rule run_iff [of "isRadixDigit 10" S "\<lambda>ds. mathInt 10 ds < infinityFrom", symmetric])

lemma hex_digits_iff:
  "hex_digits (0x30 # x # S) \<longleftrightarrow>
     (x = 0x78 \<or> x = 0x58) \<and> takeWhile (isRadixDigit 16) S \<noteq> []
     \<and> mathInt 16 (takeWhile (isRadixDigit 16) S) < infinityFrom"
  unfolding hex_digits_def
  using run_iff [of "isRadixDigit 16" S "\<lambda>ds. mathInt 16 ds < infinityFrom"]
  by auto

lemma parseInt_digits_finite:
  "isFinite_int (parseInt_digits neg S)
     \<longleftrightarrow> (if hex_prefix S then hex_digits S else decimal_digits S)"
proof (cases "hex_prefix S")
  case True
  then obtain x rest where S: "S = 0x30 # x # rest" and x: "x = 0x78 \<or> x = 0x58"
    by (auto simp: hex_prefix_def)
  have "isFinite_int (parseInt_digits neg S)
      \<longleftrightarrow> takeWhile (isRadixDigit 16) rest \<noteq> []
          \<and> mathInt 16 (takeWhile (isRadixDigit 16) rest) < infinityFrom"
    using x by (auto simp: parseInt_digits_def S isFinite_int_def Let_def)
  then show ?thesis
    using True x by (simp add: S hex_digits_iff)
next
  case False
  then have "\<not> (2 \<le> length S \<and> (take 2 S = [0x30, 0x78] \<or> take 2 S = [0x30, 0x58]))"
    using hex_prefix_iff [of S] by blast
  then have "isFinite_int (parseInt_digits neg S)
      \<longleftrightarrow> takeWhile (isRadixDigit 10) S \<noteq> []
          \<and> mathInt 10 (takeWhile (isRadixDigit 10) S) < infinityFrom"
    by (auto simp: parseInt_digits_def isFinite_int_def Let_def)
  then show ?thesis
    using False by (simp add: decimal_digits_iff)
qed

lemma digits_head:
  assumes "if hex_prefix body then hex_digits body else decimal_digits body"
  shows "body \<noteq> [] \<and> \<not> isWhiteSpace (hd body) \<and> hd body \<noteq> 0x2B \<and> hd body \<noteq> 0x2D"
proof (cases "hex_prefix body")
  case True
  then show ?thesis
    by (auto simp: hex_prefix_def sign_not_ws)
next
  case False
  then have "decimal_digits body" using assms by simp
  then obtain ds rest where "body = ds @ rest" "ds \<noteq> []" "list_all (isRadixDigit 10) ds"
    by (auto simp: decimal_digits_def)
  then have "body \<noteq> []" "isRadixDigit 10 (hd body)"
    by (cases ds; simp)+
  then show ?thesis
    using digit_not_ws digit_not_sign by blast
qed

lemma reads_integer_iff: "isFinite_int (parseInt s) \<longleftrightarrow> reads_integer s"
proof
  assume fin: "isFinite_int (parseInt s)"
  define S where "S = dropWhile isWhiteSpace s"
  define ws where "ws = takeWhile isWhiteSpace s"
  have s: "s = ws @ S" and ws: "list_all isWhiteSpace ws"
    unfolding S_def ws_def by (simp_all add: list_all_iff) (meson set_takeWhileD)
  show "reads_integer s"
  proof (cases "S \<noteq> [] \<and> (hd S = 0x2B \<or> hd S = 0x2D)")
    case True
    then have S: "S = [hd S] @ tl S" by simp
    have "isFinite_int (parseInt_digits (hd S = 0x2D) (tl S))"
      using fin True by (simp add: parseInt_def S_def Let_def)
    then have "if hex_prefix (tl S) then hex_digits (tl S) else decimal_digits (tl S)"
      by (simp only: parseInt_digits_finite)
    moreover have "s = ws @ [hd S] @ tl S"
      using s S by simp
    moreover have "[hd S] = [] \<or> [hd S] = [0x2B] \<or> [hd S] = [0x2D]"
      using True by auto
    ultimately show ?thesis
      unfolding reads_integer_def using ws by blast
  next
    case False
    then have "isFinite_int (parseInt_digits (S \<noteq> [] \<and> hd S = 0x2D) S)"
      using fin by (auto simp: parseInt_def S_def Let_def)
    then have "if hex_prefix S then hex_digits S else decimal_digits S"
      by (simp only: parseInt_digits_finite)
    moreover have "s = ws @ [] @ S"
      using s by simp
    ultimately show ?thesis
      unfolding reads_integer_def using ws by blast
  qed
next
  assume "reads_integer s"
  then obtain ws sg body where s: "s = ws @ sg @ body" and ws: "list_all isWhiteSpace ws"
    and sg: "sg = [] \<or> sg = [0x2B] \<or> sg = [0x2D]"
    and body: "if hex_prefix body then hex_digits body else decimal_digits body"
    unfolding reads_integer_def by blast
  have hd: "body \<noteq> []" "\<not> isWhiteSpace (hd body)" "hd body \<noteq> 0x2B" "hd body \<noteq> 0x2D"
    using digits_head [OF body] by simp_all
  have "sg @ body = [] \<or> \<not> isWhiteSpace (hd (sg @ body))"
    using sg hd sign_not_ws by auto
  then have S: "dropWhile isWhiteSpace s = sg @ body"
    unfolding s by (rule dropWhile_run [OF ws])
  have "\<exists>neg. parseInt s = parseInt_digits neg body"
    using sg hd by (auto simp: parseInt_def S Let_def)
  then show "isFinite_int (parseInt s)"
    using body by (auto simp: parseInt_digits_finite)
qed


lemma check_int_string:
  "truthy (isInt d) \<Longrightarrow>
   msg_not_int \<in> set (check_int (CStr s) d) \<longleftrightarrow> \<not> reads_integer s"
  by (simp add: check_int_def ToString_def reads_integer_iff)

text \<open>
  C2, as the code has it. For every string cell and a well-formed column definition
  with \<open>isInt\<close> set, the message \<open>is not a finite integer\<close> is absent exactly when
  the cell consists of any leading white space, at most one sign, and then either
  \<open>0x\<close> or \<open>0X\<close> with at least one hexadecimal digit, or (when no \<open>0x\<close> follows
  the sign) at least one decimal digit, the digit run denoting an integer below
  \<open>2^1024 - 2^970\<close>; what follows the digits is not read.
\<close>

theorem isInt_passes_iff_reads_integer:
  assumes "wellFormed B d" and "truthy (isInt d)"
  shows "\<exists>msgs. checkCell B (CStr s) d = Inr msgs
           \<and> (msg_not_int \<notin> set msgs \<longleftrightarrow> reads_integer s)"
proof -
  obtain a t m where cc: "checkCell B (CStr s) d =
           Inr (check_empty (CStr s) d @ a @ t @ m @ check_int (CStr s) d
                @ check_float B (CStr s) d @ check_min B (CStr s) d @ check_max B (CStr s) d)"
    and a: "set a \<subseteq> {msg_not_ascii}"
    and t: "set t \<subseteq> {msg_not_trimmed}"
    and m: "set m \<subseteq> {msg_no_match}"
    using checkCell_string [OF assms(1)] by blast
  let ?msgs = "check_empty (CStr s) d @ a @ t @ m @ check_int (CStr s) d
                @ check_float B (CStr s) d @ check_min B (CStr s) d @ check_max B (CStr s) d"
  have "msg_not_int \<in> set ?msgs \<longleftrightarrow> msg_not_int \<in> set (check_int (CStr s) d)"
    using notin_sub [OF set_check_empty, of msg_not_int] notin_sub [OF a, of msg_not_int]
      notin_sub [OF t, of msg_not_int] notin_sub [OF m, of msg_not_int]
      notin_sub [OF set_check_float, of msg_not_int] notin_sub [OF set_check_min, of msg_not_int]
      notin_sub [OF set_check_max, of msg_not_int]
    by (simp add: msg_neq)
  then have "msg_not_int \<notin> set ?msgs \<longleftrightarrow> reads_integer s"
    by (simp only: check_int_string [OF assms(2)]) simp
  then show ?thesis
    unfolding cc by blast
qed

lemma begins_with_integer_iff:
  "begins_with_integer s \<longleftrightarrow>
     decimal_digits s \<or> (s \<noteq> [] \<and> (hd s = 0x2B \<or> hd s = 0x2D) \<and> decimal_digits (tl s))"
proof
  assume "begins_with_integer s"
  then show "decimal_digits s
      \<or> (s \<noteq> [] \<and> (hd s = 0x2B \<or> hd s = 0x2D) \<and> decimal_digits (tl s))"
    unfolding begins_with_integer_def by auto
next
  assume R: "decimal_digits s
      \<or> (s \<noteq> [] \<and> (hd s = 0x2B \<or> hd s = 0x2D) \<and> decimal_digits (tl s))"
  show "begins_with_integer s"
  proof (cases "decimal_digits s")
    case True
    then have "s = [] @ s \<and> decimal_digits s" by simp
    then show ?thesis unfolding begins_with_integer_def by blast
  next
    case False
    then have *: "s \<noteq> []" "hd s = 0x2B \<or> hd s = 0x2D" "decimal_digits (tl s)"
      using R by auto
    then have "s = [hd s] @ tl s" by simp
    moreover have "[hd s] = [0x2B] \<or> [hd s] = [0x2D]" using *(2) by simp
    ultimately show ?thesis unfolding begins_with_integer_def using *(3) by blast
  qed
qed

lemma parse_sp42: "parseInt [0x20, 0x34, 0x32] = Some (False, 42)"
  by (simp add: parseInt_def parseInt_digits_def isWhiteSpace_def isRadixDigit_def
      digitValue_def mathInt_def)

lemma parse_0x: "parseInt [0x30, 0x78] = None"
  by (simp add: parseInt_def parseInt_digits_def isWhiteSpace_def isRadixDigit_def
      digitValue_def mathInt_def)

text \<open>
  C2, as the specification words it, fails both ways: the cell \<open>42\<close> after one space
  passes and does not begin with a sign or a digit, and the cell \<open>0x\<close> begins with
  the digit 0 and gets the message.
\<close>

theorem isInt_begins_with_integer_counterexample:
  "checkCell exampleBuiltins (CStr [0x20, 0x34, 0x32]) (noRules\<lparr>isInt := JBool True\<rparr>) = Inr []
   \<and> \<not> begins_with_integer [0x20, 0x34, 0x32]
   \<and> checkCell exampleBuiltins (CStr [0x30, 0x78]) (noRules\<lparr>isInt := JBool True\<rparr>)
       = Inr [msg_not_int]
   \<and> begins_with_integer [0x30, 0x78]"
proof -
  have 1: "checkCell exampleBuiltins (CStr [0x20, 0x34, 0x32]) (noRules\<lparr>isInt := JBool True\<rparr>)
        = Inr []"
    by (simp add: checkCell_def noRules_def check_ascii_def check_trim_def check_regex_def
        check_empty_def check_int_def check_float_def check_min_def check_max_def ToString_def
        parse_sp42 isFinite_int_def infinityFrom_def)
  have 2: "\<not> begins_with_integer [0x20, 0x34, 0x32]"
    by (simp add: begins_with_integer_iff decimal_digits_iff isRadixDigit_def digitValue_def)
  have 3: "checkCell exampleBuiltins (CStr [0x30, 0x78]) (noRules\<lparr>isInt := JBool True\<rparr>)
        = Inr [msg_not_int]"
    by (simp add: checkCell_def noRules_def check_ascii_def check_trim_def check_regex_def
        check_empty_def check_int_def check_float_def check_min_def check_max_def ToString_def
        parse_0x isFinite_int_def)
  have 4: "begins_with_integer [0x30, 0x78]"
    by (simp add: begins_with_integer_iff decimal_digits_iff isRadixDigit_def digitValue_def
        mathInt_def infinityFrom_def)
  show ?thesis
    using 1 2 3 4 by blast
qed

text \<open>The same two cells, on the side of the amended statement.\<close>

theorem isInt_passes_iff_reads_integer_witness:
  "wellFormed exampleBuiltins (noRules\<lparr>isInt := JBool True\<rparr>)
   \<and> truthy (isInt (noRules\<lparr>isInt := JBool True\<rparr>))
   \<and> (\<exists>msgs. checkCell exampleBuiltins (CStr [0x20, 0x34, 0x32])
                 (noRules\<lparr>isInt := JBool True\<rparr>) = Inr msgs
         \<and> msg_not_int \<notin> set msgs)
   \<and> reads_integer [0x20, 0x34, 0x32]
   \<and> (\<exists>msgs. checkCell exampleBuiltins (CStr [0x30, 0x78])
                 (noRules\<lparr>isInt := JBool True\<rparr>) = Inr msgs
         \<and> msg_not_int \<in> set msgs)
   \<and> \<not> reads_integer [0x30, 0x78]"
proof -
  let ?d = "noRules\<lparr>isInt := JBool True\<rparr>"
  have w: "wellFormed exampleBuiltins ?d" and i: "truthy (isInt ?d)"
    by (simp_all add: wellFormed_def noRules_def)
  have r1: "reads_integer [0x20, 0x34, 0x32]"
    by (simp add: reads_integer_iff [symmetric] parse_sp42 isFinite_int_def infinityFrom_def)
  have r2: "\<not> reads_integer [0x30, 0x78]"
    by (simp add: reads_integer_iff [symmetric] parse_0x isFinite_int_def)
  have 1: "\<exists>msgs. checkCell exampleBuiltins (CStr [0x20, 0x34, 0x32]) ?d = Inr msgs
         \<and> msg_not_int \<notin> set msgs"
    using isInt_passes_iff_reads_integer [OF w i, of "[0x20, 0x34, 0x32]"] r1 by blast
  have 2: "\<exists>msgs. checkCell exampleBuiltins (CStr [0x30, 0x78]) ?d = Inr msgs
         \<and> msg_not_int \<in> set msgs"
    using isInt_passes_iff_reads_integer [OF w i, of "[0x30, 0x78]"] r2 by blast
  show ?thesis
    using w i r1 r2 1 2 by blast
qed

subsection \<open>No rules\<close>

text \<open>
  C10. Against the column definition with every field absent, \<open>checkCell\<close> returns
  the empty list, for every cell (a string or \<open>undefined\<close>) and whatever the
  built-ins do.
\<close>

theorem checkCell_noRules: "checkCell B cell noRules = Inr []"
  by (simp add: checkCell_def noRules_def check_ascii_def check_trim_def check_regex_def
      check_empty_def check_int_def check_float_def check_min_def check_max_def)

section \<open>Properties of the handler of \<open>readable\<close>\<close>

subsection \<open>What one record makes the handler do\<close>

text \<open>
  The two loops over the columns only append lines about cells to \<open>outstream\<close>, also
  when \<open>checkCell\<close> throws in the middle.
\<close>

lemma forEach_idx_effect:
  "\<exists>cells. list_all isCellLine cells
     \<and> state_of (forEach_idx B rec defs idx st) = st\<lparr>out := out st @ cells\<rparr>"
proof (induction defs arbitrary: idx st)
  case Nil
  have "list_all isCellLine [] \<and> state_of (forEach_idx B rec [] idx st) = st\<lparr>out := out st @ []\<rparr>"
    by simp
  then show ?case by blast
next
  case (Cons d defs)
  show ?case
  proof (cases "checkCell B (at_idx rec idx) d")
    case (Inl e)
    then have "list_all isCellLine []
        \<and> state_of (forEach_idx B rec (d # defs) idx st) = st\<lparr>out := out st @ []\<rparr>"
      by simp
    then show ?thesis by blast
  next
    case (Inr msgs)
    let ?st = "st\<lparr>out := out st @ map (CellLine (row st) (ColIdx (idx + 1))) msgs\<rparr>"
    obtain cells where c: "list_all isCellLine cells"
      "state_of (forEach_idx B rec defs (idx + 1) ?st) = ?st\<lparr>out := out ?st @ cells\<rparr>"
      using Cons.IH [of "idx + 1" ?st] by blast
    have "list_all isCellLine (map (CellLine (row st) (ColIdx (idx + 1))) msgs @ cells)"
      using c(1) by (auto simp: list_all_iff)
    moreover have "state_of (forEach_idx B rec (d # defs) idx st)
        = st\<lparr>out := out st @ (map (CellLine (row st) (ColIdx (idx + 1))) msgs @ cells)\<rparr>"
      using Inr c(2) by simp
    ultimately show ?thesis by blast
  qed
qed

lemma forEach_key_effect:
  "\<exists>cells. list_all isCellLine cells
     \<and> state_of (forEach_key B rec defs st) = st\<lparr>out := out st @ cells\<rparr>"
proof (induction defs arbitrary: st)
  case Nil
  have "list_all isCellLine [] \<and> state_of (forEach_key B rec [] st) = st\<lparr>out := out st @ []\<rparr>"
    by simp
  then show ?case by blast
next
  case (Cons kd defs)
  obtain key d where kd: "kd = (key, d)" by (cases kd)
  show ?case
  proof (cases "checkCell B (at_key B rec key) d")
    case (Inl e)
    then have "list_all isCellLine []
        \<and> state_of (forEach_key B rec (kd # defs) st) = st\<lparr>out := out st @ []\<rparr>"
      by (simp add: kd)
    then show ?thesis by blast
  next
    case (Inr msgs)
    let ?st = "st\<lparr>out := out st @ map (CellLine (row st) (ColKey key)) msgs\<rparr>"
    obtain cells where c: "list_all isCellLine cells"
      "state_of (forEach_key B rec defs ?st) = ?st\<lparr>out := out ?st @ cells\<rparr>"
      using Cons.IH [of ?st] by blast
    have "list_all isCellLine (map (CellLine (row st) (ColKey key)) msgs @ cells)"
      using c(1) by (auto simp: list_all_iff)
    moreover have "state_of (forEach_key B rec (kd # defs) st)
        = st\<lparr>out := out st @ (map (CellLine (row st) (ColKey key)) msgs @ cells)\<rparr>"
      using Inr c(2) by (simp add: kd)
    ultimately show ?thesis by blast
  qed
qed

lemma cells_effect:
  "\<exists>cells. list_all isCellLine cells
     \<and> state_of (case columnDefs schema of
                    ObjDefs defs \<Rightarrow> forEach_key B rec defs st
                  | ArrDefs defs \<Rightarrow> forEach_idx B rec defs 0 st) = st\<lparr>out := out st @ cells\<rparr>"
  using forEach_key_effect forEach_idx_effect by (cases "columnDefs schema") auto

text \<open>
  One pass of the loop body, in full: the counter goes up by one; a skipped record
  changes nothing else; otherwise the expected count is latched if it was unset, and
  what is written is the blank-line diagnostic alone, or at most one column-count
  diagnostic followed by lines about cells.
\<close>

lemma readable_body_effect:
  "\<exists>cells. list_all isCellLine cells \<and>
     state_of (readable_body B schema st rec) =
       (if skipped schema (row st + 1) then st\<lparr>row := row st + 1\<rparr>
        else st\<lparr>row := row st + 1,
               colsShould := (if unset (colsShould st) then Some (Dbl (real (colsThis rec)))
                              else colsShould st),
               out := out st @
                 (if isRowBlank rec then [BlankLine (row st + 1)]
                  else (if Some (Dbl (real (colsThis rec)))
                            \<noteq> (if unset (colsShould st) then Some (Dbl (real (colsThis rec)))
                                else colsShould st)
                        then [Inconsistent (row st + 1)
                               (if unset (colsShould st) then Some (Dbl (real (colsThis rec)))
                                else colsShould st) (colsThis rec)]
                        else []) @ cells)\<rparr>)"
proof (cases "skipped schema (row st + 1)")
  case True
  then have "state_of (readable_body B schema st rec) = st\<lparr>row := row st + 1\<rparr>"
    by (simp add: readable_body_def skipped_def Let_def)
  then show ?thesis
    using True by (intro exI [of _ "[]"]) simp
next
  case False
  let ?c = "if unset (colsShould st) then Some (Dbl (real (colsThis rec))) else colsShould st"
  let ?st2 = "st\<lparr>row := row st + 1, colsShould := ?c\<rparr>"
  show ?thesis
  proof (cases "isRowBlank rec")
    case True
    have "state_of (readable_body B schema st rec) = ?st2\<lparr>out := out st @ [BlankLine (row st + 1)]\<rparr>"
      using False True by (simp add: readable_body_def skipped_def Let_def)
    then show ?thesis
      using False True by (intro exI [of _ "[]"]) simp
  next
    case nb: False
    let ?pre = "if Some (Dbl (real (colsThis rec))) \<noteq> ?c
                then [Inconsistent (row st + 1) ?c (colsThis rec)] else []"
    let ?st3 = "?st2\<lparr>out := out st @ ?pre\<rparr>"
    obtain cells where c: "list_all isCellLine cells"
      "state_of (case columnDefs schema of
                    ObjDefs defs \<Rightarrow> forEach_key B rec defs ?st3
                  | ArrDefs defs \<Rightarrow> forEach_idx B rec defs 0 ?st3) = ?st3\<lparr>out := out ?st3 @ cells\<rparr>"
      using cells_effect [where st = ?st3 and schema = schema and B = B and rec = rec] by blast
    have "readable_body B schema st rec
        = (case columnDefs schema of
                    ObjDefs defs \<Rightarrow> forEach_key B rec defs ?st3
                  | ArrDefs defs \<Rightarrow> forEach_idx B rec defs 0 ?st3)"
      using False nb
      by (cases "columnDefs schema") (simp_all add: readable_body_def skipped_def Let_def)
    then have "state_of (readable_body B schema st rec) = ?st3\<lparr>out := out ?st3 @ cells\<rparr>"
      using c(2) by simp
    then have "state_of (readable_body B schema st rec)
        = st\<lparr>row := row st + 1, colsShould := ?c, out := out st @ ?pre @ cells\<rparr>"
      by simp
    then show ?thesis
      using False nb c(1) by (intro exI [of _ cells]) simp
  qed
qed


text \<open>
  A column of the schema that is named like a property of \<open>Object.prototype\<close> and
  that the record does not have: \<open>checkCell\<close> is given the inherited function, which
  is not empty and cannot be trimmed.
\<close>

lemma inherited_cell_example:
  "at_key exampleBuiltins (ObjRec [([0x61], [0x31])]) [0x74, 0x6F, 0x53, 0x74, 0x72, 0x69, 0x6E, 0x67]
     \<noteq> CUndefined
   \<and> checkCell exampleBuiltins
        (at_key exampleBuiltins (ObjRec [([0x61], [0x31])])
           [0x74, 0x6F, 0x53, 0x74, 0x72, 0x69, 0x6E, 0x67])
        (noRules\<lparr>isEmpty := JBool True\<rparr>) = Inr [msg_not_empty]
   \<and> checkCell exampleBuiltins
        (at_key exampleBuiltins (ObjRec [([0x61], [0x31])])
           [0x74, 0x6F, 0x53, 0x74, 0x72, 0x69, 0x6E, 0x67])
        (noRules\<lparr>isTrim := JBool True\<rparr>) = Inl TypeError"
  by (simp add: exampleBuiltins_def checkCell_def noRules_def check_ascii_def check_trim_def
      check_regex_def check_empty_def check_int_def check_float_def check_min_def check_max_def)

subsection \<open>Blank records\<close>

text \<open>
  C5. For every blank record that is not among the skipped rows, the handler writes
  exactly one line for it, the blank-line diagnostic with its row number: no line
  about a cell and no column-count diagnostic, even when the record's single field
  is not the expected number of columns. The handler does not throw on it.
\<close>

theorem blank_record_one_line:
  assumes "isRowBlank rec" and "\<not> skipped schema (row st + 1)"
  shows "\<exists>st'. readable_body B schema st rec = Next st'
           \<and> out st' = out st @ [BlankLine (row st + 1)]"
  using assms by (simp add: readable_body_def skipped_def Let_def)

text \<open>
  A blank first record under a schema that expects three columns and has a rule
  \<open>noEmpty\<close> for the first: the one line \<open>(Row 1): is a blank line\<close>.
\<close>

theorem blank_record_one_line_witness:
  "isRowBlank (ArrRec [[]])
   \<and> \<not> skipped \<lparr>columns = Some (Dbl 3), skipRows = None,
                  columnDefs = ArrDefs [noRules\<lparr>noEmpty := JBool True\<rparr>]\<rparr>
         (row (initial \<lparr>columns = Some (Dbl 3), skipRows = None,
                        columnDefs = ArrDefs [noRules\<lparr>noEmpty := JBool True\<rparr>]\<rparr>) + 1)
   \<and> (\<exists>st'. readable_body exampleBuiltins
               \<lparr>columns = Some (Dbl 3), skipRows = None,
                columnDefs = ArrDefs [noRules\<lparr>noEmpty := JBool True\<rparr>]\<rparr>
               (initial \<lparr>columns = Some (Dbl 3), skipRows = None,
                         columnDefs = ArrDefs [noRules\<lparr>noEmpty := JBool True\<rparr>]\<rparr>)
               (ArrRec [[]]) = Next st'
          \<and> out st' = [BlankLine 1])"
  using blank_record_one_line [of "ArrRec [[]]"
      "\<lparr>columns = Some (Dbl 3), skipRows = None,
        columnDefs = ArrDefs [noRules\<lparr>noEmpty := JBool True\<rparr>]\<rparr>"
      "initial \<lparr>columns = Some (Dbl 3), skipRows = None,
                columnDefs = ArrDefs [noRules\<lparr>noEmpty := JBool True\<rparr>]\<rparr>" exampleBuiltins]
  by (simp add: skipped_def initial_def namedColumnMode_def)

subsection \<open>The row counter\<close>

lemma readable_body_row: "row (state_of (readable_body B schema st rec)) = row st + 1"
  using readable_body_effect [of B schema st rec] by auto

lemma readable_row:
  "readable B schema st recs = Next st' \<Longrightarrow> row st' = row st + length recs"
proof (induction recs arbitrary: st)
  case Nil
  then show ?case by simp
next
  case (Cons rec recs)
  then obtain st1 where 1: "readable_body B schema st rec = Next st1"
    and 2: "readable B schema st1 recs = Next st'"
    by (auto split: outcome.splits)
  have "row st1 = row st + 1"
    using readable_body_row [of B schema st rec] 1 by simp
  then show ?case
    using Cons.IH [OF 2] by simp
qed

text \<open>
  C9. The counter starts at 0 in positional mode and at 1 in named mode. Every record
  read adds exactly one to it, whatever happens to the record: skipped, blank,
  reported, or with \<open>checkCell\<close> throwing on one of its cells. A loop that reads
  \<open>recs\<close> to the end leaves the counter higher by the number of records.
\<close>

theorem row_counts_every_record:
  "row (initial schema) = (if namedColumnMode schema then 1 else 0)
   \<and> row (state_of (readable_body B schema st rec)) = row st + 1
   \<and> (\<forall>st'. readable B schema st recs = Next st' \<longrightarrow> row st' = row st + length recs)"
  using readable_row by (simp add: initial_def readable_body_row)

text \<open>
  Three records with \<open>skipRows: 1\<close>: the first is skipped, the second is blank, the
  third has one field too many and a cell that is no integer; the counter ends at 3.
\<close>

lemma parse_b: "parseInt [0x62] = None"
  by (simp add: parseInt_def parseInt_digits_def isWhiteSpace_def isRadixDigit_def
      digitValue_def mathInt_def)

lemma example_run:
  "readable exampleBuiltins
     \<lparr>columns = None, skipRows = Some (Dbl 1),
      columnDefs = ArrDefs [noRules\<lparr>isInt := JBool True\<rparr>]\<rparr>
     (initial \<lparr>columns = None, skipRows = Some (Dbl 1),
               columnDefs = ArrDefs [noRules\<lparr>isInt := JBool True\<rparr>]\<rparr>)
     [ArrRec [[0x61]], ArrRec [[]], ArrRec [[0x62], [0x63]]]
   = Next \<lparr>row = 3, colsShould = Some (Dbl 1),
           out = [BlankLine 2, Inconsistent 3 (Some (Dbl 1)) 2,
                  CellLine 3 (ColIdx 1) msg_not_int]\<rparr>"
  by (simp add: readable_body_def initial_def namedColumnMode_def unset_def Let_def
      checkCell_def noRules_def check_ascii_def check_trim_def check_regex_def
      check_empty_def check_int_def check_float_def check_min_def check_max_def ToString_def
      parse_b isFinite_int_def)

theorem row_counts_every_record_witness:
  "readable exampleBuiltins
     \<lparr>columns = None, skipRows = Some (Dbl 1),
      columnDefs = ArrDefs [noRules\<lparr>isInt := JBool True\<rparr>]\<rparr>
     (initial \<lparr>columns = None, skipRows = Some (Dbl 1),
               columnDefs = ArrDefs [noRules\<lparr>isInt := JBool True\<rparr>]\<rparr>)
     [ArrRec [[0x61]], ArrRec [[]], ArrRec [[0x62], [0x63]]]
   = Next \<lparr>row = 3, colsShould = Some (Dbl 1),
           out = [BlankLine 2, Inconsistent 3 (Some (Dbl 1)) 2,
                  CellLine 3 (ColIdx 1) msg_not_int]\<rparr>
   \<and> row \<lparr>row = 3, colsShould = Some (Dbl 1),
           out = [BlankLine 2, Inconsistent 3 (Some (Dbl 1)) 2,
                  CellLine 3 (ColIdx 1) msg_not_int]\<rparr>
       = row (initial \<lparr>columns = None, skipRows = Some (Dbl 1),
                       columnDefs = ArrDefs [noRules\<lparr>isInt := JBool True\<rparr>]\<rparr>)
         + length [ArrRec [[0x61]], ArrRec [[]], ArrRec [[0x62], [0x63]]]"
  using example_run
    row_counts_every_record [of
      "\<lparr>columns = None, skipRows = Some (Dbl 1),
        columnDefs = ArrDefs [noRules\<lparr>isInt := JBool True\<rparr>]\<rparr>" exampleBuiltins
      "initial \<lparr>columns = None, skipRows = Some (Dbl 1),
                columnDefs = ArrDefs [noRules\<lparr>isInt := JBool True\<rparr>]\<rparr>" "ArrRec []"
      "[ArrRec [[0x61]], ArrRec [[]], ArrRec [[0x62], [0x63]]]"]
  by simp


subsection \<open>The expected column count\<close>










subsection \<open>Records with too few fields\<close>

text \<open>
  A record that is not skipped, not blank and not of the expected number of fields
  gets one column-count diagnostic, with the expected and the found count, before
  anything about its cells.
\<close>

lemma mismatch_reported_once:
  assumes "\<not> skipped schema (row st + 1)" and "\<not> isRowBlank rec"
    and "\<not> unset (colsShould st)" and "Some (Dbl (real (colsThis rec))) \<noteq> colsShould st"
  shows "\<exists>cells. list_all isCellLine cells
           \<and> out (state_of (readable_body B schema st rec))
               = out st @ Inconsistent (row st + 1) (colsShould st) (colsThis rec) # cells"
proof -
  obtain cells where "list_all isCellLine cells"
    "state_of (readable_body B schema st rec) =
       st\<lparr>row := row st + 1, colsShould := colsShould st,
          out := out st @ [Inconsistent (row st + 1) (colsShould st) (colsThis rec)] @ cells\<rparr>"
    using readable_body_effect [of B schema st rec] assms by auto
  then show ?thesis
    by (intro exI [of _ cells]) simp
qed

text \<open>
  C1. The handler passes \<open>rec[idx]\<close> to \<open>checkCell\<close> as it is, and for a column that
  the record does not have that is \<open>undefined\<close>, not the empty string. Under a schema
  of three columns, the record \<open>a,b\<close> gets its column-count diagnostic and then, when
  the third column has \<open>isTrim\<close>, \<open>cell.trim()\<close> throws a TypeError out of the handler;
  when the third column has \<open>isEmpty\<close>, it is reported as not empty. On the empty
  string \<open>checkCell\<close> returns no message for either rule.
\<close>

theorem absent_cell_is_undefined:
  "readable_body B
     \<lparr>columns = Some (Dbl 3), skipRows = None,
      columnDefs = ArrDefs [noRules, noRules, noRules\<lparr>isTrim := JBool True\<rparr>]\<rparr>
     (initial \<lparr>columns = Some (Dbl 3), skipRows = None,
               columnDefs = ArrDefs [noRules, noRules, noRules\<lparr>isTrim := JBool True\<rparr>]\<rparr>)
     (ArrRec [[0x61], [0x62]])
   = Threw TypeError \<lparr>row = 1, colsShould = Some (Dbl 3),
                      out = [Inconsistent 1 (Some (Dbl 3)) 2]\<rparr>
   \<and> checkCell B (CStr []) (noRules\<lparr>isTrim := JBool True\<rparr>) = Inr []
   \<and> readable_body B
     \<lparr>columns = Some (Dbl 3), skipRows = None,
      columnDefs = ArrDefs [noRules, noRules, noRules\<lparr>isEmpty := JBool True\<rparr>]\<rparr>
     (initial \<lparr>columns = Some (Dbl 3), skipRows = None,
               columnDefs = ArrDefs [noRules, noRules, noRules\<lparr>isEmpty := JBool True\<rparr>]\<rparr>)
     (ArrRec [[0x61], [0x62]])
   = Next \<lparr>row = 1, colsShould = Some (Dbl 3),
           out = [Inconsistent 1 (Some (Dbl 3)) 2, CellLine 1 (ColIdx 3) msg_not_empty]\<rparr>
   \<and> checkCell B (CStr []) (noRules\<lparr>isEmpty := JBool True\<rparr>) = Inr []"
  by (simp add: readable_body_def initial_def namedColumnMode_def unset_def Let_def
      checkCell_def noRules_def check_ascii_def check_trim_def check_regex_def
      check_empty_def check_int_def check_float_def check_min_def check_max_def trim_def)

end
